theory Spec2Isabelle
  imports Complex_Main
begin

section \<open>Python string primitives\<close>

text \<open>
  A Python \<open>str\<close> is modelled as a \<open>string\<close> whose every \<open>char\<close> is one code point in
  the range 0..255 (Latin-1).  On that range the predicates below are the ones CPython
  uses: \<open>str.isspace\<close> (also the separator set of \<open>str.split()\<close> and \<open>str.strip()\<close>),
  \<open>str.isdigit\<close>, the class \<open>\d\<close> of the \<open>re\<close> module (decimal digits only) and
  \<open>str.lower\<close>.
\<close>

definition isspace :: "char \<Rightarrow> bool" where
  "isspace c = (let n = (of_char c :: nat) in
     (9 \<le> n \<and> n \<le> 13) \<or> (28 \<le> n \<and> n \<le> 32) \<or> n = 133 \<or> n = 160)"

definition isdecimal :: "char \<Rightarrow> bool" where
  "isdecimal c = (let n = (of_char c :: nat) in 48 \<le> n \<and> n \<le> 57)"

definition isdigit :: "char \<Rightarrow> bool" where
  "isdigit c = (let n = (of_char c :: nat) in
     (48 \<le> n \<and> n \<le> 57) \<or> n = 178 \<or> n = 179 \<or> n = 185)"

definition lower_char :: "char \<Rightarrow> char" where
  "lower_char c = (let n = (of_char c :: nat) in
     if (65 \<le> n \<and> n \<le> 90) \<or> (192 \<le> n \<and> n \<le> 222 \<and> n \<noteq> 215)
     then char_of (n + 32) else c)"

definition lower :: "string \<Rightarrow> string" where
  "lower s = map lower_char s"

definition strip :: "string \<Rightarrow> string" where
  "strip s = rev (dropWhile isspace (rev (dropWhile isspace s)))"

text \<open>\<open>s.split()\<close>: skip a run of whitespace, take a run of non-whitespace, repeat.\<close>

function split_ws :: "string \<Rightarrow> string list" where
  "split_ws s = (let t = dropWhile isspace s in
     if t = [] then []
     else takeWhile (\<lambda>c. \<not> isspace c) t # split_ws (dropWhile (\<lambda>c. \<not> isspace c) t))"
  by pat_completeness auto
termination
proof (relation "measure length")
  show "wf (measure length)" by simp
next
  fix s t :: string
  assume t: "t = dropWhile isspace s" and ne: "t \<noteq> []"
  from ne obtain c cs where tc: "t = c # cs" by (cases t) simp_all
  have "dropWhile isspace s \<noteq> []" using t ne by simp
  then have "\<not> isspace (hd (dropWhile isspace s))" by (rule hd_dropWhile)
  moreover have "hd (dropWhile isspace s) = c" using t tc by (metis list.sel(1))
  ultimately have "\<not> isspace c" by simp
  then have "dropWhile (\<lambda>c. \<not> isspace c) t = dropWhile (\<lambda>c. \<not> isspace c) cs"
    by (simp add: tc)
  then have "length (dropWhile (\<lambda>c. \<not> isspace c) t) \<le> length cs"
    by (simp add: length_dropWhile_le)
  moreover have "length t \<le> length s" by (simp add: t length_dropWhile_le)
  ultimately show "(dropWhile (\<lambda>c. \<not> isspace c) t, s) \<in> measure length"
    by (simp add: tc)
qed

declare split_ws.simps [simp del]

text \<open>\<open>str(n)\<close> for a non-negative integer, as the f-strings print a length.\<close>

fun str_of_nat :: "nat \<Rightarrow> string" where
  "str_of_nat n = (if n < 10 then [char_of (48 + n)]
     else str_of_nat (n div 10) @ [char_of (48 + n mod 10)])"

declare str_of_nat.simps [simp del]

section \<open>Intent classifier\<close>

definition street_keywords :: "string list" where
  "street_keywords =
     [''street'', ''st'', ''road'', ''rd'', ''avenue'', ''ave'', ''drive'', ''dr'',
      ''lane'', ''ln'', ''court'', ''ct'', ''crescent'', ''cres'', ''place'', ''pl'',
      ''way'', ''parade'', ''pde'', ''boulevard'', ''blvd'', ''highway'', ''hwy'',
      ''terrace'', ''tce'']"

text \<open>\<open>re.match(r"^\d", w)\<close>: the word starts with a decimal digit.\<close>

definition re_match_digit :: "string \<Rightarrow> bool" where
  "re_match_digit w = (case w of [] \<Rightarrow> False | c # _ \<Rightarrow> isdecimal c)"

text \<open>The loop \<open>for word in words: if word in street_keywords: return "street"\<close>;
  the result says whether the loop returned.\<close>

primrec street_loop :: "string list \<Rightarrow> bool" where
  "street_loop [] = False"
| "street_loop (word # rest) = (if word \<in> set street_keywords then True else street_loop rest)"

definition classify_intent :: "string \<Rightarrow> string" where
  "classify_intent query =
     (let q = lower (strip query);
          words = split_ws q
      in if (case words of [] \<Rightarrow> False | w # _ \<Rightarrow> re_match_digit w) then ''address''
         else if street_loop words then ''street''
         else if length words = 1 \<and> 3 \<le> length q then ''suburb''
         else if length words = 2 \<and> \<not> list_ex isdigit q then ''suburb''
         else ''general'')"






section \<open>Data model\<close>

text \<open>
  JSON values: the payload an operation returns (before \<open>json.dumps\<close>), the data of a
  notification, and the opaque \<open>structuredFormatting\<close> blob.
\<close>

datatype json =
    JNull
  | JBool bool
  | JNum rat
  | JStr string
  | JArr "json list"
  | JObj "(string \<times> json) list"

text \<open>
  A suggestion is a Python dict.  Every key is an optional field: \<open>None\<close> is a key that
  is absent (\<open>dict.get\<close> then yields its default).  The last three keys exist only after
  enrichment.
\<close>

record suggestion =
  placeId :: "string option"
  description :: "string option"
  resultType :: "string option"
  suburb :: "string option"
  confidence :: "rat option"
  types :: "string list option"
  structuredFormatting :: "json option"
  postcode :: "string option"
  lat :: "rat option"
  lng :: "rat option"

text \<open>The module-level dict \<open>_session_state\<close>.\<close>

record session_state =
  last_query :: "string option"
  last_suggestions :: "suggestion list"
  current_selection :: "suggestion option"
  selection_acknowledged :: bool
  session_id :: string

subsection \<open>The backend and the notification sink\<close>

text \<open>The arguments of the action \<open>address/getPlaceSuggestions\<close>.\<close>

record lookup_args =
  la_query :: string
  la_intent :: string
  la_maxResults :: "nat option"
  la_isAutocomplete :: bool

text \<open>Its answer; \<open>success\<close> is read for its truth value, so an absent key is \<open>False\<close>.
  The key \<open>suggestions\<close>, when present, holds a list, as the interface declares.\<close>

record lookup_value =
  success :: bool
  suggestions :: "suggestion list option"
  detectedIntent :: "string option"
  error :: "string option"

record place_details =
  formattedAddress :: "string option"
  d_suburb :: "string option"
  d_postcode :: "string option"
  d_lat :: "rat option"
  d_lng :: "rat option"
  d_types :: "string list option"

text \<open>The answer of the action \<open>address/getPlaceDetails\<close>.\<close>

record details_value =
  d_success :: bool
  details :: "place_details option"
  d_error :: "string option"

text \<open>
  The JSON body of an action either is the answer or wraps it under the key \<open>value\<close>;
  the callers read it with \<open>result.get("value", result)\<close>.
\<close>

datatype 'a action_result = Plain 'a | WithValue 'a

fun get_value :: "'a action_result \<Rightarrow> 'a" where
  "get_value (Plain v) = v"
| "get_value (WithValue v) = v"

text \<open>The arguments of the mutation \<open>cartesia/sessionState:pushUpdate\<close>; \<open>data\<close> is the
  value handed to \<open>json.dumps\<close>.\<close>

record notification =
  sessionId :: string
  updateType :: string
  data :: json

text \<open>
  Every tool is defined under \<open>@loopback_tool\<close>, so the module-level name of a tool is
  bound to what that decorator of the \<open>line\<close> SDK returns, not to the function written
  below it.  The SDK is not part of the repository.  Its agent runs the function a tool
  wraps; what happens when the code itself calls such a name depends on the object:
  \<open>FunctionTool\<close> is a tool record, which is not callable, \<open>PlainFunction\<close> an object
  that passes the call on to the function.
\<close>

datatype tool_binding = FunctionTool | PlainFunction

text \<open>An exception that leaves a tool uncaught.\<close>

datatype exception = TypeError

text \<open>
  The outside world as the tools see it.  A call that raises is \<open>Inl\<close> of the exception's
  text (for the mutation, \<open>Some\<close> of it); a timeout is such an exception.
\<close>

record backend =
  getPlaceSuggestions :: "lookup_args \<Rightarrow> string + lookup_value action_result"
  getPlaceDetails :: "string \<Rightarrow> string + details_value action_result"
  pushUpdate :: "notification \<Rightarrow> string option"
  loopback_tool :: tool_binding

text \<open>What a tool does besides changing the session state, in order.\<close>

datatype event =
    SuggestionsCall lookup_args
  | DetailsCall string
  | PushCall notification
  | Print string

record world =
  session :: session_state
  trace :: "event list"

definition log_event :: "event \<Rightarrow> world \<Rightarrow> world" where
  "log_event e w = w\<lparr>trace := trace w @ [e]\<rparr>"

definition reset_state :: "world \<Rightarrow> world" where
  "reset_state w = w\<lparr>session := (session w)\<lparr>last_query := None, last_suggestions := [],
     current_selection := None, selection_acknowledged := False\<rparr>\<rparr>"

definition call_suggestions ::
  "backend \<Rightarrow> lookup_args \<Rightarrow> world \<Rightarrow> (string + lookup_value action_result) \<times> world" where
  "call_suggestions env args w = (getPlaceSuggestions env args, log_event (SuggestionsCall args) w)"

definition call_details ::
  "backend \<Rightarrow> string \<Rightarrow> world \<Rightarrow> (string + details_value action_result) \<times> world" where
  "call_details env place_id w = (getPlaceDetails env place_id, log_event (DetailsCall place_id) w)"

text \<open>\<open>_push_state_update\<close>: the mutation is attempted; if it raises, the exception is
  printed and swallowed.\<close>

definition push_state_update :: "backend \<Rightarrow> string \<Rightarrow> json \<Rightarrow> world \<Rightarrow> world" where
  "push_state_update env update_type d w =
     (let n = \<lparr>sessionId = session_id (session w), updateType = update_type, data = d\<rparr>;
          w1 = log_event (PushCall n) w
      in case pushUpdate env n of
           None \<Rightarrow> w1
         | Some e \<Rightarrow> log_event (Print (''[tools] Failed to push state update: '' @ e)) w1)"

definition or_default :: "'a option \<Rightarrow> 'a \<Rightarrow> 'a" where
  "or_default v d = (case v of None \<Rightarrow> d | Some x \<Rightarrow> x)"

definition json_opt :: "('a \<Rightarrow> json) \<Rightarrow> 'a option \<Rightarrow> json" where
  "json_opt f v = (case v of None \<Rightarrow> JNull | Some x \<Rightarrow> f x)"

definition format_suggestion :: "suggestion \<Rightarrow> json" where
  "format_suggestion s = JObj
     [(''placeId'', JStr (or_default (placeId s) '''')),
      (''description'', JStr (or_default (description s) '''')),
      (''resultType'', JStr (or_default (resultType s) ''general'')),
      (''suburb'', json_opt JStr (suburb s)),
      (''confidence'', JNum (or_default (confidence s) 0)),
      (''types'', JArr (map JStr (or_default (types s) []))),
      (''structuredFormatting'', json_opt id (structuredFormatting s))]"

text \<open>The answer read from a call that raised or returned nothing: the empty dict.\<close>

definition empty_value :: lookup_value where
  "empty_value = \<lparr>success = False, suggestions = None, detectedIntent = None, error = None\<rparr>"

definition value_of :: "(string + lookup_value action_result) \<Rightarrow> lookup_value" where
  "value_of r = (case r of Inl e \<Rightarrow> empty_value | Inr res \<Rightarrow> get_value res)"

text \<open>Truth value of \<open>value.get("suggestions")\<close>: a non-empty list.\<close>

definition has_suggestions :: "lookup_value \<Rightarrow> bool" where
  "has_suggestions v = (case suggestions v of None \<Rightarrow> False | Some l \<Rightarrow> l \<noteq> [])"

definition suggestions_data :: "string \<Rightarrow> string \<Rightarrow> suggestion list \<Rightarrow> json" where
  "suggestions_data query detected_intent l = JObj
     [(''query'', JStr query),
      (''intent'', JStr detected_intent),
      (''suggestions'', JArr (map format_suggestion l))]"

definition store_search :: "string \<Rightarrow> suggestion list \<Rightarrow> world \<Rightarrow> world" where
  "store_search query l w =
     w\<lparr>session := (session w)\<lparr>last_query := Some query, last_suggestions := l\<rparr>\<rparr>"

section \<open>Search\<close>

text \<open>
  Every tool returns \<open>json.dumps\<close> of a dict; the model returns the dict, with its
  \<open>status\<close>, \<open>count\<close>, \<open>error\<close> and state fields.  The fixed \<open>message\<close> and \<open>note\<close>
  texts for the calling agent, which no transition depends on, are left out.
\<close>

definition status_of :: "json \<Rightarrow> string option" where
  "status_of p = (case p of
     JObj kvs \<Rightarrow> (case map_of kvs ''status'' of Some (JStr s) \<Rightarrow> Some s | _ \<Rightarrow> None)
   | _ \<Rightarrow> None)"

definition error_of :: "json \<Rightarrow> string option" where
  "error_of p = (case p of
     JObj kvs \<Rightarrow> (case map_of kvs ''error'' of Some (JStr s) \<Rightarrow> Some s | _ \<Rightarrow> None)
   | _ \<Rightarrow> None)"

text \<open>\<open>value["suggestions"][0]\<close> under the guard
  \<open>value.get("success") and value.get("suggestions")\<close>.\<close>

definition first_hit :: "lookup_value \<Rightarrow> suggestion option" where
  "first_hit v = (if success v then (case suggestions v of Some (x # _) \<Rightarrow> Some x | _ \<Rightarrow> None)
     else None)"

text \<open>The branch \<open>if intent == "address"\<close>: the loose call, the strict call, then the
  strict-first resolution.\<close>

definition search_address_dual :: "backend \<Rightarrow> string \<Rightarrow> string \<Rightarrow> world \<Rightarrow> json \<times> world" where
  "search_address_dual env query intent w =
     (let (loose_result, w1) = call_suggestions env
            \<lparr>la_query = query, la_intent = ''general'', la_maxResults = None,
             la_isAutocomplete = True\<rparr> w;
          w2 = (case loose_result of
                  Inl e \<Rightarrow> log_event (Print (''[tools] Loose search failed: '' @ e)) w1
                | Inr _ \<Rightarrow> w1);
          (strict_result, w3) = call_suggestions env
            \<lparr>la_query = query, la_intent = ''address'', la_maxResults = Some 1,
             la_isAutocomplete = False\<rparr> w2;
          w4 = (case strict_result of
                  Inl e \<Rightarrow> log_event (Print (''[tools] Strict validation failed: '' @ e)) w3
                | Inr _ \<Rightarrow> w3);
          strict_value = value_of strict_result;
          loose_value = value_of loose_result
      in case first_hit strict_value of
           Some validated \<Rightarrow>
             (let all_suggestions =
                    (if success loose_value then or_default (suggestions loose_value) []
                     else [validated]);
                  detected_intent = or_default (detectedIntent strict_value) intent;
                  w5 = store_search query all_suggestions w4;
                  w6 = push_state_update env ''suggestions''
                         (suggestions_data query detected_intent all_suggestions) w5
              in (JObj [(''status'', JStr ''validated''), (''count'', JNum 1)], w6))
         | None \<Rightarrow>
             if success loose_value \<and> has_suggestions loose_value then
               (let l = or_default (suggestions loose_value) [];
                    detected_intent = or_default (detectedIntent loose_value) intent;
                    w5 = store_search query l w4;
                    w6 = push_state_update env ''suggestions''
                           (suggestions_data query detected_intent l) w5
                in (JObj [(''status'', JStr ''suggestions_available''),
                          (''count'', JNum (of_nat (length l)))], w6))
             else
               (JObj [(''status'', JStr ''validation_failed''),
                      (''error'', JStr ''The provided address could not be validated.'')], w4))"

text \<open>The rest of the body: one call in the classified mode.\<close>

definition search_address_single :: "backend \<Rightarrow> string \<Rightarrow> string \<Rightarrow> world \<Rightarrow> json \<times> world" where
  "search_address_single env query intent w =
     (let (result, w1) = call_suggestions env
            \<lparr>la_query = query, la_intent = intent, la_maxResults = Some 5,
             la_isAutocomplete = True\<rparr> w
      in case result of
           Inl e \<Rightarrow> (JObj [(''status'', JStr ''error''),
                            (''error'', JStr (''Search failed: '' @ e))], w1)
         | Inr res \<Rightarrow>
             (let v = get_value res
              in if \<not> success v then
                   (JObj [(''status'', JStr ''error''),
                          (''error'', JStr (or_default (error v) ''Unknown error''))], w1)
                 else
                   (let l = or_default (suggestions v) [];
                        detected_intent = or_default (detectedIntent v) intent;
                        w2 = store_search query l w1;
                        w3 = push_state_update env ''suggestions''
                               (suggestions_data query detected_intent l) w2
                    in if l = [] then (JObj [(''status'', JStr ''no_results'')], w3)
                       else (JObj [(''status'', JStr ''suggestions_available''),
                                   (''count'', JNum (of_nat (length l)))], w3))))"

definition clear_current :: "world \<Rightarrow> world" where
  "clear_current w =
     w\<lparr>session := (session w)\<lparr>current_selection := None, selection_acknowledged := False\<rparr>\<rparr>"

definition search_address :: "backend \<Rightarrow> string \<Rightarrow> world \<Rightarrow> json \<times> world" where
  "search_address env query w0 =
     (let w = clear_current w0;
          intent = classify_intent query
      in if intent = ''address'' then search_address_dual env query intent w
         else search_address_single env query intent w)"

section \<open>Selection\<close>

text \<open>The scan \<open>for s in last_suggestions: if s.get("placeId") == place_id\<close>.\<close>

primrec find_suggestion :: "string \<Rightarrow> suggestion list \<Rightarrow> suggestion option" where
  "find_suggestion place_id [] = None"
| "find_suggestion place_id (s # rest) =
     (if placeId s = Some place_id then Some s else find_suggestion place_id rest)"

definition empty_details :: place_details where
  "empty_details = \<lparr>formattedAddress = None, d_suburb = None, d_postcode = None,
     d_lat = None, d_lng = None, d_types = None\<rparr>"

text \<open>\<open>enriched.update({...})\<close>.\<close>

definition enrich :: "suggestion \<Rightarrow> place_details \<Rightarrow> suggestion" where
  "enrich e d = e\<lparr>
     description := Some (or_default (formattedAddress d) (or_default (description e) '''')),
     suburb := (case d_suburb d of Some x \<Rightarrow> Some x | None \<Rightarrow> suburb e),
     postcode := d_postcode d,
     lat := d_lat d,
     lng := d_lng d,
     types := Some (or_default (d_types d) (or_default (types e) []))\<rparr>"

definition enriched_with :: "suggestion \<Rightarrow> details_value \<Rightarrow> suggestion" where
  "enriched_with s v = (case details v of
       Some d \<Rightarrow> if d_success v \<and> d \<noteq> empty_details then enrich s d else s
     | None \<Rightarrow> s)"

definition select_suggestion :: "backend \<Rightarrow> string \<Rightarrow> world \<Rightarrow> json \<times> world" where
  "select_suggestion env place_id w =
     (case find_suggestion place_id (last_suggestions (session w)) of
        None \<Rightarrow>
          (JObj [(''status'', JStr ''not_found''),
                 (''error'', JStr (''No suggestion with place ID '' @ [CHR 0x27] @ place_id @ [CHR 0x27]
                    @ '' in current results. Use search_address to refresh.''))], w)
      | Some s \<Rightarrow>
          (let (result, w1) = call_details env place_id w;
               (enriched, w2) = (case result of
                    Inl e \<Rightarrow> (s, log_event (Print (''[tools] Place details enrichment failed: '' @ e)) w1)
                  | Inr res \<Rightarrow> (enriched_with s (get_value res), w1));
               w3 = w2\<lparr>session := (session w2)\<lparr>current_selection := Some enriched\<rparr>\<rparr>;
               w4 = push_state_update env ''selection''
                      (JObj [(''suggestion'', format_suggestion enriched)]) w3
           in (JObj [(''status'', JStr ''confirmed'')], w4)))"

definition ordinal_table :: "(string \<times> nat) list" where
  "ordinal_table =
     [(''first'', 0), (''1'', 0), (''1st'', 0),
      (''second'', 1), (''2'', 1), (''2nd'', 1),
      (''third'', 2), (''3'', 2), (''3rd'', 2),
      (''fourth'', 3), (''4'', 3), (''4th'', 3),
      (''fifth'', 4), (''5'', 4), (''5th'', 4)]"

definition ordinal_map :: "string \<Rightarrow> nat option" where
  "ordinal_map = map_of ordinal_table"

definition error_payload :: "string \<Rightarrow> json" where
  "error_payload msg = JObj [(''status'', JStr ''error''), (''error'', JStr msg)]"

text \<open>
  A call, from inside a tool, of a name that \<open>@loopback_tool\<close> has bound: it raises
  \<open>TypeError\<close>, before anything is done, when the bound object is not callable.
\<close>

definition call_tool ::
  "backend \<Rightarrow> (world \<Rightarrow> json \<times> world) \<Rightarrow> world \<Rightarrow> (exception + json) \<times> world" where
  "call_tool env f w = (case loopback_tool env of
       FunctionTool \<Rightarrow> (Inl TypeError, w)
     | PlainFunction \<Rightarrow> (Inr (fst (f w)), snd (f w)))"

text \<open>
  \<open>select_by_ordinal\<close> ends with \<open>return await select_suggestion(ctx, place_id)\<close>, a call
  of the decorated name with no handler around it: its result is a payload or an exception.
\<close>

definition select_by_ordinal ::
  "backend \<Rightarrow> string \<Rightarrow> world \<Rightarrow> (exception + json) \<times> world" where
  "select_by_ordinal env ordinal w =
     (case ordinal_map (strip (lower ordinal)) of
        None \<Rightarrow>
          (Inr (error_payload (''Didn't understand '' @ [CHR 0x27] @ ordinal @ [CHR 0x27]
             @ ''. Please say first, second, third, etc.'')), w)
      | Some index \<Rightarrow>
          (let l = last_suggestions (session w)
           in if l = [] then
                (Inr (error_payload
                   ''No search results to select from. Please search for an address first.''), w)
              else if length l \<le> index then
                (Inr (error_payload (''Only '' @ str_of_nat (length l)
                   @ '' results available. Choose 1 to '' @ str_of_nat (length l) @ ''.'')), w)
              else
                (let selected = l ! index;
                     place_id = or_default (placeId selected) []
                 in if place_id = [] then
                      (Inr (error_payload
                         ''That suggestion doesn't have a valid place ID. Try another.''), w)
                    else call_tool env (select_suggestion env place_id) w)))"

section \<open>State management and workflow tools\<close>

definition empty_suggestion :: suggestion where
  "empty_suggestion = \<lparr>placeId = None, description = None, resultType = None, suburb = None,
     confidence = None, types = None, structuredFormatting = None, postcode = None,
     lat = None, lng = None\<rparr>"

text \<open>Truth value of \<open>_session_state.get("current_selection")\<close>: neither \<open>None\<close> nor
  an empty dict.\<close>

definition truthy_selection :: "suggestion option \<Rightarrow> bool" where
  "truthy_selection sel = (case sel of None \<Rightarrow> False | Some s \<Rightarrow> s \<noteq> empty_suggestion)"

definition get_current_state :: "world \<Rightarrow> json \<times> world" where
  "get_current_state w =
     (let selection = current_selection (session w)
      in (JObj [(''last_query'', json_opt JStr (last_query (session w))),
                (''num_suggestions'', JNum (of_nat (length (last_suggestions (session w))))),
                (''has_selection'', JBool (selection \<noteq> None)),
                (''selection_acknowledged'', JBool (selection_acknowledged (session w))),
                (''current_selection'',
                   (case selection of
                      None \<Rightarrow> JNull
                    | Some s \<Rightarrow>
                        if truthy_selection selection then
                          JObj [(''description'', JStr (or_default (description s) '''')),
                                (''suburb'', json_opt JStr (suburb s)),
                                (''postcode'', json_opt JStr (postcode s))]
                        else JNull))], w))"

definition clear_selection :: "backend \<Rightarrow> world \<Rightarrow> json \<times> world" where
  "clear_selection env w =
     (let w1 = reset_state w;
          w2 = push_state_update env ''clear'' (JObj []) w1
      in (JObj [(''status'', JStr ''cleared'')], w2))"

definition show_options_again :: "backend \<Rightarrow> world \<Rightarrow> json \<times> world" where
  "show_options_again env w =
     (let l = last_suggestions (session w);
          query = last_query (session w)
      in if l = [] \<or> or_default query '''' = [] then
           (error_payload ''No previous options available.'', w)
         else
           (let w1 = clear_current w;
                w2 = push_state_update env ''show_options_again''
                       (suggestions_data (or_default query '''') ''general'' l) w1
            in (JObj [(''status'', JStr ''options_displayed''),
                      (''count'', JNum (of_nat (length l)))], w2)))"

definition confirm_user_selection :: "world \<Rightarrow> json \<times> world" where
  "confirm_user_selection w =
     (if \<not> truthy_selection (current_selection (session w)) then
        (error_payload ''No selection to confirm.'', w)
      else (JObj [(''status'', JStr ''acknowledged'')], w))"

definition set_selection_acknowledged :: "backend \<Rightarrow> string \<Rightarrow> world \<Rightarrow> json \<times> world" where
  "set_selection_acknowledged env acknowledged w =
     (let is_ack = (strip (lower acknowledged) \<in> set [''true'', ''1'', ''yes'']);
          w1 = w\<lparr>session := (session w)\<lparr>selection_acknowledged := is_ack\<rparr>\<rparr>;
          w2 = push_state_update env ''selection_acknowledged''
                 (JObj [(''acknowledged'', JBool is_ack)]) w1
      in (JObj [(''status'', JStr ''ok''), (''selection_acknowledged'', JBool is_ack)], w2))"

definition request_manual_input :: "backend \<Rightarrow> string \<Rightarrow> world \<Rightarrow> json \<times> world" where
  "request_manual_input env reason w =
     (let w1 = push_state_update env ''request_manual_input'' (JObj [(''reason'', JStr reason)]) w
      in (JObj [(''status'', JStr ''hybrid_mode_activated'')], w1))"

text \<open>The tools registered in \<open>ALL_TOOLS\<close>, as one step function of the session: the
  agent runs the function behind a tool, and gets its payload or the exception it raised.\<close>

datatype operation =
    SearchAddress string
  | SelectSuggestion string
  | SelectByOrdinal string
  | GetCurrentState
  | ClearSelection
  | ShowOptionsAgain
  | ConfirmUserSelection
  | SetSelectionAcknowledged string
  | RequestManualInput string

definition returned :: "json \<times> world \<Rightarrow> (exception + json) \<times> world" where
  "returned r = (Inr (fst r), snd r)"

fun run :: "backend \<Rightarrow> operation \<Rightarrow> world \<Rightarrow> (exception + json) \<times> world" where
  "run env (SearchAddress query) w = returned (search_address env query w)"
| "run env (SelectSuggestion place_id) w = returned (select_suggestion env place_id w)"
| "run env (SelectByOrdinal ordinal) w = select_by_ordinal env ordinal w"
| "run env GetCurrentState w = returned (get_current_state w)"
| "run env ClearSelection w = returned (clear_selection env w)"
| "run env ShowOptionsAgain w = returned (show_options_again env w)"
| "run env ConfirmUserSelection w = returned (confirm_user_selection w)"
| "run env (SetSelectionAcknowledged acknowledged) w =
     returned (set_selection_acknowledged env acknowledged w)"
| "run env (RequestManualInput reason) w = returned (request_manual_input env reason w)"

section \<open>Observations and sample inputs\<close>

text \<open>The notifications a tool attempted to push, in order.\<close>

fun pushes_of :: "event list \<Rightarrow> notification list" where
  "pushes_of [] = []"
| "pushes_of (PushCall n # es) = n # pushes_of es"
| "pushes_of (e # es) = pushes_of es"

text \<open>The backend calls a tool made, in order.\<close>

fun actions_of :: "event list \<Rightarrow> event list" where
  "actions_of [] = []"
| "actions_of (SuggestionsCall a # es) = SuggestionsCall a # actions_of es"
| "actions_of (DetailsCall p # es) = DetailsCall p # actions_of es"
| "actions_of (e # es) = actions_of es"

text \<open>A lookup that failed: the call raised, or the answer is not a success.\<close>

definition lookup_failed :: "(string + lookup_value action_result) \<Rightarrow> bool" where
  "lookup_failed r = (case r of Inl e \<Rightarrow> True | Inr res \<Rightarrow> \<not> success (get_value res))"

text \<open>The request of the non-address branch for a query.\<close>

definition single_args :: "string \<Rightarrow> lookup_args" where
  "single_args query = \<lparr>la_query = query, la_intent = classify_intent query,
     la_maxResults = Some 5, la_isAutocomplete = True\<rparr>"

definition is_select :: "operation \<Rightarrow> bool" where
  "is_select op = (case op of SelectSuggestion p \<Rightarrow> True | SelectByOrdinal ordinal \<Rightarrow> True | _ \<Rightarrow> False)"

definition new_session :: session_state where
  "new_session = \<lparr>last_query = None, last_suggestions = [], current_selection = None,
     selection_acknowledged = False, session_id = ''default''\<rparr>"

definition new_world :: world where
  "new_world = \<lparr>session = new_session, trace = []\<rparr>"

definition sample :: "string \<Rightarrow> string \<Rightarrow> suggestion" where
  "sample pid text = empty_suggestion\<lparr>placeId := Some pid, description := Some text\<rparr>"

definition found :: "suggestion list \<Rightarrow> string + lookup_value action_result" where
  "found l = Inr (WithValue \<lparr>success = True, suggestions = Some l, detectedIntent = None,
     error = None\<rparr>)"

text \<open>A backend that answers the strict (address) request with \<open>strict\<close> and every other
  lookup with \<open>loose\<close>, has no place details, and accepts every push; the decorated names
  are tool records.\<close>

definition sample_backend ::
  "(string + lookup_value action_result) \<Rightarrow> (string + lookup_value action_result) \<Rightarrow> backend" where
  "sample_backend strict loose =
     \<lparr>getPlaceSuggestions = (\<lambda>a. if la_intent a = ''address'' then strict else loose),
      getPlaceDetails = (\<lambda>p. Inl ''timed out''),
      pushUpdate = (\<lambda>n. None),
      loopback_tool = FunctionTool\<rparr>"

definition three_options :: "suggestion list" where
  "three_options = [sample ''p1'' ''1 Smith St'', sample ''p2'' ''2 Smith St'', sample ''p3'' ''3 Smith St'']"

definition world_with :: "suggestion list \<Rightarrow> world" where
  "world_with l = new_world\<lparr>session := new_session\<lparr>last_query := Some ''smith'', last_suggestions := l\<rparr>\<rparr>"

definition selected_world :: world where
  "selected_world = (world_with three_options)\<lparr>session := (session (world_with three_options))
     \<lparr>current_selection := Some (sample ''p1'' ''1 Smith St''), selection_acknowledged := True\<rparr>\<rparr>"

definition down :: "string + lookup_value action_result" where
  "down = Inl ''connection refused''"

text \<open>The two requests of the address branch for a query.\<close>

definition loose_args :: "string \<Rightarrow> lookup_args" where
  "loose_args query = \<lparr>la_query = query, la_intent = ''general'', la_maxResults = None,
     la_isAutocomplete = True\<rparr>"

definition strict_args :: "string \<Rightarrow> lookup_args" where
  "strict_args query = \<lparr>la_query = query, la_intent = ''address'', la_maxResults = Some 1,
     la_isAutocomplete = False\<rparr>"

section \<open>Basic facts about the world\<close>

lemma session_log_event [simp]: "session (log_event e w) = session w"
  by (simp add: log_event_def)

lemma trace_log_event [simp]: "trace (log_event e w) = trace w @ [e]"
  by (simp add: log_event_def)

lemma session_push [simp]: "session (push_state_update env t d w) = session w"
  by (simp add: push_state_update_def Let_def split: option.split)

lemma session_store_search [simp]:
  "session (store_search q l w) = (session w)\<lparr>last_query := Some q, last_suggestions := l\<rparr>"
  by (simp add: store_search_def)

lemma trace_store_search [simp]: "trace (store_search q l w) = trace w"
  by (simp add: store_search_def)

lemma session_clear_current [simp]:
  "session (clear_current w) = (session w)\<lparr>current_selection := None, selection_acknowledged := False\<rparr>"
  by (simp add: clear_current_def)

lemma trace_clear_current [simp]: "trace (clear_current w) = trace w"
  by (simp add: clear_current_def)

lemma clear_current_idem [simp]: "clear_current (clear_current w) = clear_current w"
  by (simp add: clear_current_def)

lemma dual_selection:
  "current_selection (session (snd (search_address_dual env q i w))) = current_selection (session w)
   \<and> selection_acknowledged (session (snd (search_address_dual env q i w))) = selection_acknowledged (session w)"
  by (simp add: search_address_dual_def call_suggestions_def Let_def split_def
      split: sum.split option.split)

lemma single_selection:
  "current_selection (session (snd (search_address_single env q i w))) = current_selection (session w)
   \<and> selection_acknowledged (session (snd (search_address_single env q i w))) = selection_acknowledged (session w)"
  by (simp add: search_address_single_def call_suggestions_def Let_def split_def
      split: sum.split option.split)

lemma pushes_of_append [simp]: "pushes_of (xs @ ys) = pushes_of xs @ pushes_of ys"
  by (induction xs rule: pushes_of.induct) simp_all

lemma actions_of_append [simp]: "actions_of (xs @ ys) = actions_of xs @ actions_of ys"
  by (induction xs rule: actions_of.induct) simp_all

lemma trace_push:
  "pushes_of (trace (push_state_update env t d w)) =
     pushes_of (trace w) @ [\<lparr>sessionId = session_id (session w), updateType = t, data = d\<rparr>]"
  by (simp add: push_state_update_def Let_def split: option.split)

lemma actions_push [simp]:
  "actions_of (trace (push_state_update env t d w)) = actions_of (trace w)"
  by (simp add: push_state_update_def Let_def split: option.split)

lemma find_suggestion_None:
  "find_suggestion p l = None \<longleftrightarrow> (\<forall>s \<in> set l. placeId s \<noteq> Some p)"
  by (induction l) simp_all

lemma find_suggestion_at:
  assumes "i < length l" and "placeId (l ! i) = Some p"
  shows "\<exists>s. find_suggestion p l = Some s \<and> placeId s = Some p"
proof -
  have "l ! i \<in> set l" using assms(1) by simp
  then have "find_suggestion p l \<noteq> None" using assms(2) find_suggestion_None by blast
  then obtain s where s: "find_suggestion p l = Some s" by blast
  have "find_suggestion p l = Some s \<Longrightarrow> placeId s = Some p"
    by (induction l) (simp_all split: if_splits)
  with s show ?thesis by blast
qed

text \<open>With distinct identifiers the scan finds the candidate at the index itself.\<close>

lemma find_suggestion_distinct:
  assumes "distinct (map placeId l)" and "i < length l" and "placeId (l ! i) = Some p"
  shows "find_suggestion p l = Some (l ! i)"
  using assms
proof (induction l arbitrary: i)
  case Nil
  then show ?case by simp
next
  case (Cons s l)
  show ?case
  proof (cases i)
    case 0
    then show ?thesis using Cons.prems by simp
  next
    case (Suc j)
    have j: "j < length l" "placeId (l ! j) = Some p" using Cons.prems Suc by simp_all
    then have "l ! j \<in> set l" by simp
    then have "placeId (l ! j) \<in> placeId ` set l" by (rule imageI)
    then have "placeId s \<noteq> Some p" using Cons.prems(1) j(2) by auto
    moreover have "find_suggestion p l = Some (l ! j)" using Cons.IH [of j] Cons.prems(1) j by simp
    ultimately show ?thesis using Suc by simp
  qed
qed

lemma select_suggestion_found:
  assumes "find_suggestion p (last_suggestions (session w)) = Some s"
  shows "fst (select_suggestion env p w) = JObj [(''status'', JStr ''confirmed'')]"
    and "session (snd (select_suggestion env p w)) =
      (session w)\<lparr>current_selection := Some (case getPlaceDetails env p of
         Inl e \<Rightarrow> s | Inr res \<Rightarrow> enriched_with s (get_value res))\<rparr>"
  using assms
  by (simp_all add: select_suggestion_def call_details_def Let_def split_def split: sum.split)

lemma select_suggestion_missing:
  assumes "find_suggestion p (last_suggestions (session w)) = None"
  shows "status_of (fst (select_suggestion env p w)) = Some ''not_found''"
    and "snd (select_suggestion env p w) = w"
  using assms by (simp_all add: select_suggestion_def status_of_def)

lemma dual_payload:
  "fst (search_address_dual env q i w) =
     (case first_hit (value_of (getPlaceSuggestions env (strict_args q))) of
        Some validated \<Rightarrow> JObj [(''status'', JStr ''validated''), (''count'', JNum 1)]
      | None \<Rightarrow>
          if success (value_of (getPlaceSuggestions env (loose_args q)))
             \<and> has_suggestions (value_of (getPlaceSuggestions env (loose_args q)))
          then JObj [(''status'', JStr ''suggestions_available''),
                 (''count'', JNum (of_nat (length
                    (or_default (suggestions (value_of (getPlaceSuggestions env (loose_args q)))) []))))]
          else JObj [(''status'', JStr ''validation_failed''),
                 (''error'', JStr ''The provided address could not be validated.'')])"
  by (simp add: search_address_dual_def call_suggestions_def Let_def split_def
      loose_args_def strict_args_def split: option.split)

lemma dual_session:
  "session (snd (search_address_dual env q i w)) =
     (case first_hit (value_of (getPlaceSuggestions env (strict_args q))) of
        Some validated \<Rightarrow> (session w)\<lparr>last_query := Some q, last_suggestions :=
          (if success (value_of (getPlaceSuggestions env (loose_args q)))
           then or_default (suggestions (value_of (getPlaceSuggestions env (loose_args q)))) []
           else [validated])\<rparr>
      | None \<Rightarrow>
          if success (value_of (getPlaceSuggestions env (loose_args q)))
             \<and> has_suggestions (value_of (getPlaceSuggestions env (loose_args q)))
          then (session w)\<lparr>last_query := Some q, last_suggestions :=
                 or_default (suggestions (value_of (getPlaceSuggestions env (loose_args q)))) []\<rparr>
          else session w)"
  by (simp add: search_address_dual_def call_suggestions_def Let_def split_def
      loose_args_def strict_args_def split: option.split sum.split)


lemma classify_samples:
  "classify_intent ''Richmond'' = ''suburb''"
  "classify_intent ''123 Smith Street'' = ''address''"
  by code_simp+

lemma sample_backend_simps [simp]:
  "getPlaceSuggestions (sample_backend strict loose) a = (if la_intent a = ''address'' then strict else loose)"
  "getPlaceDetails (sample_backend strict loose) p = Inl ''timed out''"
  "pushUpdate (sample_backend strict loose) n = None"
  "loopback_tool (sample_backend strict loose) = FunctionTool"
  by (simp_all add: sample_backend_def)

lemma value_of_found [simp]:
  "value_of (found l) = \<lparr>success = True, suggestions = Some l, detectedIntent = None, error = None\<rparr>"
  "value_of down = empty_value"
  by (simp_all add: value_of_def found_def down_def)

lemma returned_simps [simp]:
  "fst (returned r) = Inr (fst r)"
  "snd (returned r) = snd r"
  by (simp_all add: returned_def)

section \<open>The classifier\<close>





























section \<open>Claims about the search operation\<close>

text \<open>
  Claim C4.  For every query, backend and prior world, after \<open>search_address\<close> the current
  selection is absent and the acknowledged flag is false, whatever the outcome.  The reset
  is the first step: the whole call, backend lookups included, runs from the world in which
  the selection has already been cleared, so it yields exactly what it yields on that world.
\<close>

theorem search_resets_selection:
  "current_selection (session (snd (search_address env query w))) = None
   \<and> \<not> selection_acknowledged (session (snd (search_address env query w)))
   \<and> search_address env query w = search_address env query (clear_current w)"
  by (simp add: search_address_def Let_def dual_selection single_selection)

text \<open>
  The strict-first merge on its intended path: strict success with one result and loose
  success with three results stores the three loose results and answers \<open>validated\<close>.
\<close>

lemma validated_with_three_loose:
  "status_of (fst (search_address
        (sample_backend (found [sample ''p1'' ''1 Smith St'']) (found three_options)) ''123 Smith Street'' new_world))
        = Some ''validated''
   \<and> length (last_suggestions (session (snd (search_address
        (sample_backend (found [sample ''p1'' ''1 Smith St'']) (found three_options)) ''123 Smith Street'' new_world))))
        = 3"
  by (simp add: classify_samples search_address_def dual_payload dual_session strict_args_def loose_args_def
      Let_def status_of_def or_default_def first_hit_def three_options_def)


text \<open>
  Claim C1 (the code departs from it).  With a strict lookup that succeeds with one result
  and a loose lookup that succeeds with an empty list, \<open>search_address\<close> answers
  \<open>validated\<close> with count 1 but stores, and pushes to the screen, the empty candidate
  list instead of the singleton holding the strict result: the merge tests only the loose
  lookup's success, where the fallback branch below it tests success and non-emptiness.
\<close>

theorem validated_with_empty_loose_list:
  "classify_intent ''123 Smith Street'' = ''address''
   \<and> status_of (fst (search_address
        (sample_backend (found [sample ''p1'' ''123 Smith St'']) (found [])) ''123 Smith Street'' new_world))
        = Some ''validated''
   \<and> last_suggestions (session (snd (search_address
        (sample_backend (found [sample ''p1'' ''123 Smith St'']) (found [])) ''123 Smith Street'' new_world)))
        = []
   \<and> pushes_of (trace (snd (search_address
        (sample_backend (found [sample ''p1'' ''123 Smith St'']) (found [])) ''123 Smith Street'' new_world)))
        = [\<lparr>sessionId = ''default'', updateType = ''suggestions'',
            data = JObj [(''query'', JStr ''123 Smith Street''), (''intent'', JStr ''address''),
                         (''suggestions'', JArr [])]\<rparr>]"
  by (simp add: classify_samples search_address_def search_address_dual_def
      call_suggestions_def Let_def status_of_def or_default_def trace_push first_hit_def
      suggestions_data_def new_world_def new_session_def found_def value_of_def)


text \<open>
  Claim C6 as stated fails: a failed non-address search does change the session when a
  selection was present, because the reset of the selection comes first.
\<close>

theorem search_failure_mutates_counterexample:
  "classify_intent ''Richmond'' \<noteq> ''address''
   \<and> lookup_failed (getPlaceSuggestions (sample_backend down down) (single_args ''Richmond''))
   \<and> status_of (fst (search_address (sample_backend down down) ''Richmond'' selected_world)) = Some ''error''
   \<and> session (snd (search_address (sample_backend down down) ''Richmond'' selected_world)) \<noteq> session selected_world"
proof -
  have c: "classify_intent ''Richmond'' \<noteq> ''address''" by code_simp
  have f: "lookup_failed (getPlaceSuggestions (sample_backend down down) (single_args ''Richmond''))"
    by (simp add: lookup_failed_def sample_backend_def down_def)
  have s: "current_selection (session selected_world) \<noteq> None"
    by (simp add: selected_world_def)
  have "current_selection (session (snd (search_address (sample_backend down down) ''Richmond'' selected_world))) = None"
    by (simp add: search_address_def Let_def search_address_single_def search_address_dual_def
        call_suggestions_def split_def split: sum.split option.split)
  with s have "session (snd (search_address (sample_backend down down) ''Richmond'' selected_world)) \<noteq> session selected_world"
    by metis
  moreover have "status_of (fst (search_address (sample_backend down down) ''Richmond'' selected_world)) = Some ''error''"
    using c by (simp add: search_address_def Let_def search_address_single_def
        call_suggestions_def sample_backend_def down_def status_of_def)
  ultimately show ?thesis using c f by simp
qed


text \<open>
  Claim C6, amended.  For every prior world, when a search with non-address intent has its
  single lookup fail (the call raises, or the answer is not a success), \<open>search_address\<close>
  returns an \<open>error\<close> outcome, pushes no notification, and the session afterwards is the
  session before with the current selection cleared and acknowledged false: last query,
  candidates and session id are untouched.
\<close>

theorem search_failure_clears_selection_only:
  assumes "classify_intent query \<noteq> ''address''"
    and "lookup_failed (getPlaceSuggestions env (single_args query))"
  shows "status_of (fst (search_address env query w)) = Some ''error''
    \<and> session (snd (search_address env query w)) =
        (session w)\<lparr>current_selection := None, selection_acknowledged := False\<rparr>
    \<and> pushes_of (trace (snd (search_address env query w))) = pushes_of (trace w)"
  using assms
  by (simp add: search_address_def search_address_single_def call_suggestions_def Let_def
      lookup_failed_def single_args_def status_of_def split: sum.split_asm)

theorem search_failure_clears_selection_only_witness:
  "classify_intent ''Richmond'' \<noteq> ''address''
   \<and> lookup_failed (getPlaceSuggestions (sample_backend down down) (single_args ''Richmond''))
   \<and> status_of (fst (search_address (sample_backend down down) ''Richmond'' selected_world)) = Some ''error''
   \<and> current_selection (session (snd (search_address (sample_backend down down) ''Richmond'' selected_world))) = None
   \<and> last_suggestions (session (snd (search_address (sample_backend down down) ''Richmond'' selected_world))) = three_options"
proof -
  have c: "classify_intent ''Richmond'' \<noteq> ''address''" by code_simp
  have f: "lookup_failed (getPlaceSuggestions (sample_backend down down) (single_args ''Richmond''))"
    by (simp add: lookup_failed_def sample_backend_def down_def)
  show ?thesis
    using c f search_failure_clears_selection_only [OF c f, of selected_world]
    by (simp add: selected_world_def world_with_def new_world_def new_session_def)
qed


text \<open>
  Claim C7 as stated fails: on a successful non-address lookup with zero suggestions the
  \<open>suggestions\<close> notification is pushed before the emptiness test.
\<close>

theorem search_no_results_counterexample:
  "classify_intent ''Richmond'' \<noteq> ''address''
   \<and> getPlaceSuggestions (sample_backend down (found [])) (single_args ''Richmond'') = found []
   \<and> status_of (fst (search_address (sample_backend down (found [])) ''Richmond'' new_world))
        = Some ''no_results''
   \<and> pushes_of (trace (snd (search_address (sample_backend down (found [])) ''Richmond'' new_world)))
        = [\<lparr>sessionId = ''default'', updateType = ''suggestions'',
            data = JObj [(''query'', JStr ''Richmond''), (''intent'', JStr ''suburb''),
                         (''suggestions'', JArr [])]\<rparr>]"
  by (simp add: classify_samples single_args_def search_address_def search_address_single_def
      call_suggestions_def Let_def found_def status_of_def or_default_def trace_push
      suggestions_data_def new_world_def new_session_def)


text \<open>
  Claim C7, amended.  For every query with non-address intent whose lookup succeeds with
  zero suggestions, \<open>search_address\<close> returns a \<open>no_results\<close> outcome, stores the query
  and the empty candidate list, and pushes exactly one notification, of kind
  \<open>suggestions\<close>, carrying the empty list.
\<close>

theorem search_no_results_notifies:
  assumes "classify_intent query \<noteq> ''address''"
    and "getPlaceSuggestions env (single_args query) = Inr res"
    and "success (get_value res)"
    and "or_default (suggestions (get_value res)) [] = []"
  shows "status_of (fst (search_address env query w)) = Some ''no_results''
    \<and> pushes_of (trace (snd (search_address env query w))) =
        pushes_of (trace w) @ [\<lparr>sessionId = session_id (session w), updateType = ''suggestions'',
          data = suggestions_data query
            (or_default (detectedIntent (get_value res)) (classify_intent query)) []\<rparr>]
    \<and> session (snd (search_address env query w)) =
        (session w)\<lparr>last_query := Some query, last_suggestions := [],
          current_selection := None, selection_acknowledged := False\<rparr>"
  using assms
  by (simp add: search_address_def search_address_single_def call_suggestions_def Let_def
      single_args_def status_of_def trace_push)

theorem search_no_results_notifies_witness:
  "classify_intent ''Richmond'' \<noteq> ''address''
   \<and> status_of (fst (search_address (sample_backend down (found [])) ''Richmond'' selected_world))
        = Some ''no_results''
   \<and> length (pushes_of (trace (snd (search_address (sample_backend down (found []))
        ''Richmond'' selected_world)))) = 1
   \<and> last_suggestions (session (snd (search_address (sample_backend down (found []))
        ''Richmond'' selected_world))) = []"
proof -
  let ?res = "WithValue \<lparr>success = True, suggestions = Some [], detectedIntent = None,
     error = None\<rparr>"
  have c: "classify_intent ''Richmond'' \<noteq> ''address''" by (simp add: classify_samples)
  have r: "getPlaceSuggestions (sample_backend down (found [])) (single_args ''Richmond'') = Inr ?res"
    using c by (simp add: single_args_def found_def)
  have s: "success (get_value ?res)" by simp
  have e: "or_default (suggestions (get_value ?res)) [] = []" by (simp add: or_default_def)
  show ?thesis
    using c search_no_results_notifies [OF c r s e, of selected_world]
    by (simp add: selected_world_def world_with_def new_world_def)
qed

section \<open>Claims about selection\<close>

lemma ordinal_table_distinct: "distinct (map fst ordinal_table)"
  by (simp add: ordinal_table_def)

lemma ordinal_map_iff: "ordinal_map t = Some i \<longleftrightarrow> (t, i) \<in> set ordinal_table"
  unfolding ordinal_map_def by (rule map_of_eq_Some_iff [OF ordinal_table_distinct])

lemma ordinal_map_cases:
  "ordinal_map t = Some i \<longleftrightarrow> (t, i) \<in>
     {(''first'', 0), (''1'', 0), (''1st'', 0),
      (''second'', 1), (''2'', 1), (''2nd'', 1),
      (''third'', 2), (''3'', 2), (''3rd'', 2),
      (''fourth'', 3), (''4'', 3), (''4th'', 3),
      (''fifth'', 4), (''5'', 4), (''5th'', 4)}"
  unfolding ordinal_map_iff ordinal_table_def list.set ..



lemma select_by_ordinal_unknown:
  assumes "ordinal_map (strip (lower ordinal)) = None"
  shows "select_by_ordinal env ordinal w =
     (Inr (error_payload (''Didn't understand '' @ [CHR 0x27] @ ordinal @ [CHR 0x27]
        @ ''. Please say first, second, third, etc.'')), w)"
  using assms by (simp add: select_by_ordinal_def)

lemma select_by_ordinal_known:
  assumes "ordinal_map (strip (lower ordinal)) = Some i"
  shows "select_by_ordinal env ordinal w =
     (let l = last_suggestions (session w)
      in if l = [] then
           (Inr (error_payload
              ''No search results to select from. Please search for an address first.''), w)
         else if length l \<le> i then
           (Inr (error_payload (''Only '' @ str_of_nat (length l)
              @ '' results available. Choose 1 to '' @ str_of_nat (length l) @ ''.'')), w)
         else
           (let selected = l ! i;
                place_id = or_default (placeId selected) []
            in if place_id = [] then
                 (Inr (error_payload
                    ''That suggestion doesn't have a valid place ID. Try another.''), w)
               else call_tool env (select_suggestion env place_id) w))"
  unfolding select_by_ordinal_def assms option.case ..

lemma select_by_ordinal_empty:
  assumes "ordinal_map (strip (lower ordinal)) = Some i" and "last_suggestions (session w) = []"
  shows "select_by_ordinal env ordinal w =
     (Inr (error_payload
        ''No search results to select from. Please search for an address first.''), w)"
  unfolding select_by_ordinal_known [OF assms(1)] Let_def by (simp only: assms(2) if_True simp_thms)

lemma select_by_ordinal_range:
  assumes "ordinal_map (strip (lower ordinal)) = Some i" and "last_suggestions (session w) \<noteq> []"
    and "length (last_suggestions (session w)) \<le> i"
  shows "select_by_ordinal env ordinal w =
     (Inr (error_payload (''Only '' @ str_of_nat (length (last_suggestions (session w)))
        @ '' results available. Choose 1 to '' @ str_of_nat (length (last_suggestions (session w)))
        @ ''.'')), w)"
  unfolding select_by_ordinal_known [OF assms(1)] Let_def
  by (simp only: assms(2) assms(3) if_True if_False simp_thms)

lemma select_by_ordinal_no_id:
  assumes "ordinal_map (strip (lower ordinal)) = Some i"
    and "i < length (last_suggestions (session w))"
    and "or_default (placeId (last_suggestions (session w) ! i)) [] = []"
  shows "select_by_ordinal env ordinal w =
     (Inr (error_payload ''That suggestion doesn't have a valid place ID. Try another.''), w)"
proof -
  have ne: "last_suggestions (session w) \<noteq> []"
    using assms(2) by (cases "last_suggestions (session w)") simp_all
  have nle: "\<not> length (last_suggestions (session w)) \<le> i" using assms(2) by simp
  show ?thesis unfolding select_by_ordinal_known [OF assms(1)] Let_def
    by (simp only: ne nle assms(3) if_True if_False simp_thms)
qed

lemma select_by_ordinal_delegates:
  assumes "ordinal_map (strip (lower ordinal)) = Some i"
    and "i < length (last_suggestions (session w))"
    and "placeId (last_suggestions (session w) ! i) = Some p" and "p \<noteq> []"
  shows "select_by_ordinal env ordinal w = call_tool env (select_suggestion env p) w"
proof -
  have ne: "last_suggestions (session w) \<noteq> []"
    using assms(2) by (cases "last_suggestions (session w)") simp_all
  have nle: "\<not> length (last_suggestions (session w)) \<le> i" using assms(2) by simp
  have d: "or_default (placeId (last_suggestions (session w) ! i)) [] = p"
    by (simp only: assms(3) or_default_def option.case)
  show ?thesis unfolding select_by_ordinal_known [OF assms(1)] Let_def
    by (simp only: ne nle d assms(4) if_True if_False simp_thms)
qed

text \<open>
  The branches of \<open>select_by_ordinal\<close> that answer with an error do what the specification
  says and leave the world as it was: an unrecognised token is quoted as given, an index
  beyond a one-item list states the count, an empty list has nothing to select from.
\<close>

lemma select_by_ordinal_error_examples:
  "select_by_ordinal env ''tenth'' w =
     (Inr (error_payload (''Didn't understand '' @ [CHR 0x27] @ ''tenth'' @ [CHR 0x27]
        @ ''. Please say first, second, third, etc.'')), w)"
  "select_by_ordinal env ''second'' (world_with [sample ''p1'' ''1 Smith St'']) =
     (Inr (error_payload ''Only 1 results available. Choose 1 to 1.''),
      world_with [sample ''p1'' ''1 Smith St''])"
  "select_by_ordinal env ''first'' new_world =
     (Inr (error_payload
        ''No search results to select from. Please search for an address first.''), new_world)"
proof -
  have o1: "ordinal_map (strip (lower ''first'')) = Some 0" by code_simp
  have o2: "ordinal_map (strip (lower ''second'')) = Some 1" by code_simp
  have o10: "ordinal_map (strip (lower ''tenth'')) = None" by code_simp
  have n1: "str_of_nat (Suc 0) = ''1''" by code_simp
  have l1: "last_suggestions (session (world_with [sample ''p1'' ''1 Smith St'']))
       = [sample ''p1'' ''1 Smith St'']"
    and l0: "last_suggestions (session new_world) = []"
    by (simp_all add: world_with_def new_world_def new_session_def)
  show "select_by_ordinal env ''tenth'' w =
     (Inr (error_payload (''Didn't understand '' @ [CHR 0x27] @ ''tenth'' @ [CHR 0x27]
        @ ''. Please say first, second, third, etc.'')), w)"
    using o10 by (rule select_by_ordinal_unknown)
  show "select_by_ordinal env ''second'' (world_with [sample ''p1'' ''1 Smith St'']) =
     (Inr (error_payload ''Only 1 results available. Choose 1 to 1.''),
      world_with [sample ''p1'' ''1 Smith St''])"
    using select_by_ordinal_range [OF o2, of "world_with [sample ''p1'' ''1 Smith St'']" env]
    by (simp add: l1 n1)
  show "select_by_ordinal env ''first'' new_world =
     (Inr (error_payload
        ''No search results to select from. Please search for an address first.''), new_world)"
    using o1 l0 by (rule select_by_ordinal_empty)
qed


section \<open>Candidates after a failed validation\<close>






section \<open>Claims about the acknowledged flag\<close>

lemma select_by_ordinal_cases:
  "snd (select_by_ordinal env ordinal w) = w
   \<or> (\<exists>p. snd (select_by_ordinal env ordinal w) = snd (select_suggestion env p w))"
proof (cases "ordinal_map (strip (lower ordinal))")
  case None
  then show ?thesis by (simp only: select_by_ordinal_unknown snd_conv simp_thms)
next
  case (Some i)
  let ?l = "last_suggestions (session w)"
  show ?thesis
  proof (cases "i < length ?l")
    case False
    show ?thesis
    proof (cases "?l = []")
      case True
      then show ?thesis by (simp only: select_by_ordinal_empty [OF Some] snd_conv simp_thms)
    next
      case ne: False
      have "length ?l \<le> i" using False by simp
      then show ?thesis by (simp only: select_by_ordinal_range [OF Some ne] snd_conv simp_thms)
    qed
  next
    case True
    show ?thesis
    proof (cases "placeId (?l ! i)")
      case None
      then have "or_default (placeId (?l ! i)) [] = []" by (simp add: or_default_def)
      then show ?thesis by (simp only: select_by_ordinal_no_id [OF Some True] snd_conv simp_thms)
    next
      case (Some p)
      note pid = this
      show ?thesis
      proof (cases "p = []")
        case True
        then have "or_default (placeId (?l ! i)) [] = []" using pid by (simp add: or_default_def)
        then show ?thesis
          by (simp only: select_by_ordinal_no_id [OF \<open>ordinal_map (strip (lower ordinal)) = Some i\<close>
              \<open>i < length ?l\<close>] snd_conv simp_thms)
      next
        case False
        have d: "select_by_ordinal env ordinal w = call_tool env (select_suggestion env p) w"
          using \<open>ordinal_map (strip (lower ordinal)) = Some i\<close> \<open>i < length ?l\<close> pid False
          by (rule select_by_ordinal_delegates)
        have "snd (call_tool env (select_suggestion env p) w) = w
            \<or> snd (call_tool env (select_suggestion env p) w) = snd (select_suggestion env p w)"
          by (simp add: call_tool_def split: tool_binding.split)
        then show ?thesis unfolding d by blast
      qed
    qed
  qed
qed

lemma select_suggestion_session:
  "\<exists>sel. session (snd (select_suggestion env p w)) = (session w)\<lparr>current_selection := sel\<rparr>"
proof (cases "find_suggestion p (last_suggestions (session w))")
  case None
  have "session w = (session w)\<lparr>current_selection := current_selection (session w)\<rparr>" by simp
  then show ?thesis using select_suggestion_missing(2) [OF None] by metis
next
  case (Some s)
  then show ?thesis using select_suggestion_found(2) [OF Some] by blast
qed

lemma select_suggestion_ack:
  "selection_acknowledged (session (snd (select_suggestion env p w))) = selection_acknowledged (session w)"
proof -
  obtain sel where "session (snd (select_suggestion env p w)) = (session w)\<lparr>current_selection := sel\<rparr>"
    using select_suggestion_session by blast
  then show ?thesis by simp
qed

lemma select_by_ordinal_ack:
  "selection_acknowledged (session (snd (select_by_ordinal env ordinal w))) = selection_acknowledged (session w)"
proof -
  from select_by_ordinal_cases [of env ordinal w] show ?thesis
  proof
    assume "snd (select_by_ordinal env ordinal w) = w"
    then show ?thesis by simp
  next
    assume "\<exists>p. snd (select_by_ordinal env ordinal w) = snd (select_suggestion env p w)"
    then show ?thesis using select_suggestion_ack by auto
  qed
qed

lemma set_ack_session:
  "session (snd (set_selection_acknowledged env a w)) =
     (session w)\<lparr>selection_acknowledged := (strip (lower a) \<in> set [''true'', ''1'', ''yes''])\<rparr>"
  by (simp add: set_selection_acknowledged_def Let_def)


lemma set_ack_pushes:
  "pushes_of (trace (snd (set_selection_acknowledged env a w))) =
     pushes_of (trace w) @ [\<lparr>sessionId = session_id (session w),
        updateType = ''selection_acknowledged'',
        data = JObj [(''acknowledged'', JBool (strip (lower a) \<in> set [''true'', ''1'', ''yes'']))]\<rparr>]"
  by (simp add: set_selection_acknowledged_def Let_def trace_push)

lemma set_ack_payload:
  "fst (set_selection_acknowledged env a w) =
     JObj [(''status'', JStr ''ok''),
           (''selection_acknowledged'', JBool (strip (lower a) \<in> set [''true'', ''1'', ''yes'']))]"
  by (simp add: set_selection_acknowledged_def Let_def)

lemma search_address_cleared:
  "current_selection (session (snd (search_address env query w))) = None"
  "\<not> selection_acknowledged (session (snd (search_address env query w)))"
  by (simp_all add: search_address_def Let_def dual_selection single_selection)

lemma clear_selection_session:
  "session (snd (clear_selection env w)) = (session w)\<lparr>last_query := None, last_suggestions := [],
     current_selection := None, selection_acknowledged := False\<rparr>"
  by (simp add: clear_selection_def reset_state_def Let_def)

lemma show_options_again_session:
  "session (snd (show_options_again env w)) = session w
   \<or> session (snd (show_options_again env w)) =
       (session w)\<lparr>current_selection := None, selection_acknowledged := False\<rparr>"
  by (simp add: show_options_again_def Let_def)

lemma stateless_tools:
  "snd (get_current_state w) = w"
  "snd (confirm_user_selection w) = w"
  "session (snd (request_manual_input env reason w)) = session w"
  by (simp_all add: get_current_state_def confirm_user_selection_def request_manual_input_def Let_def)

lemma selected_world_fields:
  "last_suggestions (session selected_world) = three_options"
  "current_selection (session selected_world) = Some (sample ''p1'' ''1 Smith St'')"
  "selection_acknowledged (session selected_world)"
  by (simp_all add: selected_world_def world_with_def new_world_def new_session_def)

lemma find_p2: "find_suggestion ''p2'' three_options = Some (sample ''p2'' ''2 Smith St'')"
  by (simp add: three_options_def sample_def)

lemma sample_inject: "sample a b = sample c d \<longleftrightarrow> a = c \<and> b = d"
  by (auto simp: sample_def empty_suggestion_def)

text \<open>
  Claim C9 as stated fails on two points: the notification kind pushed is
  \<open>selection_acknowledged\<close>, not \<open>acknowledged\<close>, and the input is trimmed before it is
  compared, so an input such as \<open>" Yes "\<close>, which is none of the three words, sets the flag.
\<close>

theorem set_acknowledged_counterexample:
  "map updateType (pushes_of (trace (snd (set_selection_acknowledged (sample_backend down down)
      ''true'' new_world)))) = [''selection_acknowledged'']
   \<and> ''selection_acknowledged'' \<noteq> ''acknowledged''
   \<and> selection_acknowledged (session (snd (set_selection_acknowledged (sample_backend down down)
      '' Yes '' new_world)))
   \<and> lower '' Yes '' \<noteq> ''true'' \<and> lower '' Yes '' \<noteq> ''1'' \<and> lower '' Yes '' \<noteq> ''yes''"
proof -
  have l: "lower '' Yes '' = '' yes ''" by code_simp
  have s: "strip '' yes '' = ''yes''" by code_simp
  show ?thesis
    by (simp add: set_ack_session set_ack_pushes new_world_def l s)
qed


text \<open>
  Claim C9, amended.  For every input string and every world, with no precondition on a
  selection, \<open>set_selection_acknowledged\<close> sets acknowledged to true exactly when the
  input, lower-cased and with surrounding whitespace removed, is \<open>true\<close>, \<open>1\<close> or
  \<open>yes\<close>, and to false otherwise; it changes no other field, answers \<open>ok\<close>, and pushes
  one notification whose update type is \<open>selection_acknowledged\<close>, carrying the flag.
\<close>

theorem set_acknowledged_spec:
  "selection_acknowledged (session (snd (set_selection_acknowledged env a w)))
     = (strip (lower a) = ''true'' \<or> strip (lower a) = ''1'' \<or> strip (lower a) = ''yes'')
   \<and> session (snd (set_selection_acknowledged env a w))
     = (session w)\<lparr>selection_acknowledged :=
          (strip (lower a) = ''true'' \<or> strip (lower a) = ''1'' \<or> strip (lower a) = ''yes'')\<rparr>
   \<and> pushes_of (trace (snd (set_selection_acknowledged env a w)))
     = pushes_of (trace w) @ [\<lparr>sessionId = session_id (session w),
          updateType = ''selection_acknowledged'',
          data = JObj [(''acknowledged'', JBool
            (strip (lower a) = ''true'' \<or> strip (lower a) = ''1'' \<or> strip (lower a) = ''yes''))]\<rparr>]
   \<and> status_of (fst (set_selection_acknowledged env a w)) = Some ''ok''"
proof -
  have m: "(strip (lower a) \<in> set [''true'', ''1'', ''yes''])
      = (strip (lower a) = ''true'' \<or> strip (lower a) = ''1'' \<or> strip (lower a) = ''yes'')"
    by (simp only: list.set insert_iff empty_iff simp_thms)
  show ?thesis
    unfolding set_ack_session set_ack_pushes set_ack_payload m
    by (simp add: status_of_def)
qed

text \<open>
  Claim C5 as stated fails: \<open>select_suggestion\<close> replaces the selection and does not touch
  acknowledged, so a flag set to true through \<open>set_selection_acknowledged\<close> is still true
  after the replacement.
\<close>

theorem select_keeps_acknowledged_counterexample:
  "current_selection (session (snd (run (sample_backend down down)
      (SetSelectionAcknowledged ''true'') selected_world))) = Some (sample ''p1'' ''1 Smith St'')
   \<and> current_selection (session (snd (run (sample_backend down down) (SelectSuggestion ''p2'')
      (snd (run (sample_backend down down) (SetSelectionAcknowledged ''true'') selected_world)))))
      = Some (sample ''p2'' ''2 Smith St'')
   \<and> sample ''p2'' ''2 Smith St'' \<noteq> sample ''p1'' ''1 Smith St''
   \<and> selection_acknowledged (session (snd (run (sample_backend down down) (SelectSuggestion ''p2'')
      (snd (run (sample_backend down down) (SetSelectionAcknowledged ''true'') selected_world)))))"
proof -
  let ?env = "sample_backend down down"
  let ?w1 = "snd (set_selection_acknowledged ?env ''true'' selected_world)"
  have t: "strip (lower ''true'') = ''true''" by code_simp
  have s1: "session ?w1 = session selected_world"
    by (simp add: set_ack_session t selected_world_fields)
  have f: "find_suggestion ''p2'' (last_suggestions (session ?w1)) = Some (sample ''p2'' ''2 Smith St'')"
    by (simp only: s1 selected_world_fields find_p2)
  have s2: "session (snd (select_suggestion ?env ''p2'' ?w1)) =
      (session selected_world)\<lparr>current_selection := Some (sample ''p2'' ''2 Smith St'')\<rparr>"
    unfolding select_suggestion_found(2) [OF f, of ?env] s1 by simp
  show ?thesis
    unfolding run.simps returned_simps s2 s1 by (simp add: selected_world_fields sample_inject)
qed

text \<open>
  Claim C5, amended.  For every world and every tool other than the two selection tools, if
  the tool changes the current selection (search, clear, show-options-again clear it) then
  acknowledged is false afterwards; the selection tools (\<open>select_suggestion\<close>, and
  \<open>select_by_ordinal\<close> through it) replace the selection and leave acknowledged at the
  value it had before.
\<close>

theorem selection_change_acknowledged:
  "(is_select op \<longrightarrow>
      selection_acknowledged (session (snd (run env op w))) = selection_acknowledged (session w))
   \<and> (\<not> is_select op \<longrightarrow>
      current_selection (session (snd (run env op w))) \<noteq> current_selection (session w) \<longrightarrow>
      \<not> selection_acknowledged (session (snd (run env op w))))"
proof (cases op)
  case (SearchAddress q)
  then show ?thesis by (simp add: is_select_def search_address_cleared)
next
  case (SelectSuggestion p)
  then show ?thesis by (simp add: is_select_def select_suggestion_ack)
next
  case (SelectByOrdinal ordinal)
  then show ?thesis by (simp add: is_select_def select_by_ordinal_ack)
next
  case GetCurrentState
  then show ?thesis by (simp add: is_select_def stateless_tools)
next
  case ClearSelection
  then show ?thesis by (simp add: is_select_def clear_selection_session)
next
  case ShowOptionsAgain
  then show ?thesis
    using show_options_again_session [of env w] by (auto simp: is_select_def)
next
  case ConfirmUserSelection
  then show ?thesis by (simp add: is_select_def stateless_tools)
next
  case (SetSelectionAcknowledged a)
  then show ?thesis by (simp add: is_select_def set_ack_session)
next
  case (RequestManualInput reason)
  then show ?thesis by (simp add: is_select_def stateless_tools)
qed

theorem selection_change_acknowledged_witness:
  "is_select (SelectSuggestion ''p2'')
   \<and> selection_acknowledged (session (snd (run (sample_backend down down)
        (SelectSuggestion ''p2'') selected_world)))
   \<and> \<not> is_select ClearSelection
   \<and> current_selection (session (snd (run (sample_backend down down) ClearSelection selected_world)))
        \<noteq> current_selection (session selected_world)
   \<and> \<not> selection_acknowledged (session (snd (run (sample_backend down down) ClearSelection
        selected_world)))"
proof -
  let ?env = "sample_backend down down"
  have a: "is_select (SelectSuggestion ''p2'')" and b: "\<not> is_select ClearSelection"
    by (simp_all add: is_select_def)
  have c: "current_selection (session (snd (run ?env ClearSelection selected_world)))
      \<noteq> current_selection (session selected_world)"
    by (simp add: clear_selection_session selected_world_fields)
  have "selection_acknowledged (session (snd (run ?env (SelectSuggestion ''p2'') selected_world)))"
    using selection_change_acknowledged [of "SelectSuggestion ''p2''" ?env selected_world] a
    by (simp add: selected_world_fields)
  moreover have "\<not> selection_acknowledged (session (snd (run ?env ClearSelection selected_world)))"
    using selection_change_acknowledged [of ClearSelection ?env selected_world] b c by blast
  ultimately show ?thesis using a b c by blast
qed

section \<open>Claims about the notification channel\<close>

lemma push_irrelevant_dual:
  "fst (search_address_dual (env\<lparr>pushUpdate := f\<rparr>) q i w) = fst (search_address_dual env q i w)"
  "session (snd (search_address_dual (env\<lparr>pushUpdate := f\<rparr>) q i w))
     = session (snd (search_address_dual env q i w))"
  by (simp_all add: dual_payload dual_session split: option.split)

lemma push_irrelevant_single:
  "fst (search_address_single (env\<lparr>pushUpdate := f\<rparr>) q i w) = fst (search_address_single env q i w)"
  "session (snd (search_address_single (env\<lparr>pushUpdate := f\<rparr>) q i w))
     = session (snd (search_address_single env q i w))"
  by (simp_all add: search_address_single_def call_suggestions_def Let_def split_def
      split: sum.split)

lemma push_irrelevant_search:
  "fst (search_address (env\<lparr>pushUpdate := f\<rparr>) q w) = fst (search_address env q w)"
  "session (snd (search_address (env\<lparr>pushUpdate := f\<rparr>) q w))
     = session (snd (search_address env q w))"
  by (simp_all add: search_address_def Let_def push_irrelevant_dual push_irrelevant_single)

lemma push_irrelevant_select:
  "fst (select_suggestion (env\<lparr>pushUpdate := f\<rparr>) p w) = fst (select_suggestion env p w)"
  "session (snd (select_suggestion (env\<lparr>pushUpdate := f\<rparr>) p w))
     = session (snd (select_suggestion env p w))"
  by (simp_all add: select_suggestion_def call_details_def Let_def split_def
      split: sum.split option.split)

lemma push_irrelevant_call_tool:
  "fst (call_tool (env\<lparr>pushUpdate := f\<rparr>) (select_suggestion (env\<lparr>pushUpdate := f\<rparr>) p) w)
     = fst (call_tool env (select_suggestion env p) w)"
  "session (snd (call_tool (env\<lparr>pushUpdate := f\<rparr>) (select_suggestion (env\<lparr>pushUpdate := f\<rparr>) p) w))
     = session (snd (call_tool env (select_suggestion env p) w))"
  by (simp_all add: call_tool_def push_irrelevant_select split: tool_binding.split)

lemma push_irrelevant_ordinal:
  "fst (select_by_ordinal (env\<lparr>pushUpdate := f\<rparr>) ordinal w) = fst (select_by_ordinal env ordinal w)"
  "session (snd (select_by_ordinal (env\<lparr>pushUpdate := f\<rparr>) ordinal w))
     = session (snd (select_by_ordinal env ordinal w))"
proof -
  show "fst (select_by_ordinal (env\<lparr>pushUpdate := f\<rparr>) ordinal w) = fst (select_by_ordinal env ordinal w)"
  proof (cases "ordinal_map (strip (lower ordinal))")
    case None
    then show ?thesis by (simp only: select_by_ordinal_unknown fst_conv)
  next
    case (Some i)
    show ?thesis
      unfolding select_by_ordinal_known [OF Some] Let_def
      by (simp only: push_irrelevant_call_tool fst_conv if_distrib [of fst])
  qed
  show "session (snd (select_by_ordinal (env\<lparr>pushUpdate := f\<rparr>) ordinal w))
     = session (snd (select_by_ordinal env ordinal w))"
  proof (cases "ordinal_map (strip (lower ordinal))")
    case None
    then show ?thesis by (simp only: select_by_ordinal_unknown snd_conv)
  next
    case (Some i)
    show ?thesis
      unfolding select_by_ordinal_known [OF Some] Let_def
      by (simp only: push_irrelevant_call_tool snd_conv if_distrib [of snd] if_distrib [of session])
  qed
qed

lemma push_irrelevant_rest:
  "fst (clear_selection (env\<lparr>pushUpdate := f\<rparr>) w) = fst (clear_selection env w)"
  "session (snd (clear_selection (env\<lparr>pushUpdate := f\<rparr>) w)) = session (snd (clear_selection env w))"
  "fst (show_options_again (env\<lparr>pushUpdate := f\<rparr>) w) = fst (show_options_again env w)"
  "session (snd (show_options_again (env\<lparr>pushUpdate := f\<rparr>) w))
     = session (snd (show_options_again env w))"
  "fst (set_selection_acknowledged (env\<lparr>pushUpdate := f\<rparr>) a w)
     = fst (set_selection_acknowledged env a w)"
  "session (snd (set_selection_acknowledged (env\<lparr>pushUpdate := f\<rparr>) a w))
     = session (snd (set_selection_acknowledged env a w))"
  "fst (request_manual_input (env\<lparr>pushUpdate := f\<rparr>) reason w) = fst (request_manual_input env reason w)"
  "session (snd (request_manual_input (env\<lparr>pushUpdate := f\<rparr>) reason w))
     = session (snd (request_manual_input env reason w))"
  by (simp_all add: clear_selection_session set_ack_session set_ack_payload stateless_tools
      clear_selection_def show_options_again_def request_manual_input_def Let_def)

lemma push_irrelevant_run:
  "fst (run (env\<lparr>pushUpdate := f\<rparr>) op w) = fst (run env op w)"
  "session (snd (run (env\<lparr>pushUpdate := f\<rparr>) op w)) = session (snd (run env op w))"
  by (cases op; simp only: run.simps returned_simps push_irrelevant_search push_irrelevant_select
      push_irrelevant_ordinal push_irrelevant_rest)+

text \<open>A push that raises is visible only in the trace: the exception is printed.\<close>

lemma failed_push_is_printed:
  "trace (push_state_update (env\<lparr>pushUpdate := (\<lambda>n. Some ''boom'')\<rparr>) t d w) =
     trace w @ [PushCall \<lparr>sessionId = session_id (session w), updateType = t, data = d\<rparr>,
                Print ''[tools] Failed to push state update: boom'']"
  "trace (push_state_update (env\<lparr>pushUpdate := (\<lambda>n. None)\<rparr>) t d w) =
     trace w @ [PushCall \<lparr>sessionId = session_id (session w), updateType = t, data = d\<rparr>]"
  by (simp_all add: push_state_update_def Let_def)

text \<open>
  Claim C8.  For every tool, every input and every world, the payload returned and the
  session state left behind are the same whatever the notification sink does: whether each
  push succeeds or raises (the exception is caught, printed and dropped inside
  \<open>push_state_update\<close>) changes neither.
\<close>

theorem push_failure_never_changes_result:
  "fst (run (env\<lparr>pushUpdate := succeeding\<rparr>) op w) = fst (run (env\<lparr>pushUpdate := failing\<rparr>) op w)
   \<and> session (snd (run (env\<lparr>pushUpdate := succeeding\<rparr>) op w))
       = session (snd (run (env\<lparr>pushUpdate := failing\<rparr>) op w))"
  by (simp only: push_irrelevant_run simp_thms)

end
